theory Spec2Isabelle
  imports Complex_Main "HOL-Library.AList"
begin

section \<open>Numeric cells\<close>

text \<open>
  The program keeps its data in pandas frames of float64 cells. A cell is modelled by
  its value class: \<open>NaN\<close> (the missing marker of pandas), the two infinities, or a finite
  number, taken as an exact real. Rounding, overflow of finite results and the sign of
  zero are not modelled. The operations below follow IEEE 754 on the special values.
\<close>

datatype fl = NaN | NInf | Fin real | PInf

definition sign_inf :: "real \<Rightarrow> fl" where
  "sign_inf s = (if 0 < s then PInf else if s < 0 then NInf else NaN)"

fun fl_neg :: "fl \<Rightarrow> fl" where
  "fl_neg NaN = NaN"
| "fl_neg NInf = PInf"
| "fl_neg PInf = NInf"
| "fl_neg (Fin a) = Fin (- a)"

fun fl_add :: "fl \<Rightarrow> fl \<Rightarrow> fl" where
  "fl_add (Fin a) (Fin b) = Fin (a + b)"
| "fl_add NaN y = NaN"
| "fl_add x NaN = NaN"
| "fl_add PInf NInf = NaN"
| "fl_add NInf PInf = NaN"
| "fl_add PInf y = PInf"
| "fl_add x PInf = PInf"
| "fl_add NInf y = NInf"
| "fl_add x NInf = NInf"

definition fl_sub :: "fl \<Rightarrow> fl \<Rightarrow> fl" where
  "fl_sub x y = fl_add x (fl_neg y)"

fun fl_mul :: "fl \<Rightarrow> fl \<Rightarrow> fl" where
  "fl_mul (Fin a) (Fin b) = Fin (a * b)"
| "fl_mul NaN y = NaN"
| "fl_mul x NaN = NaN"
| "fl_mul (Fin a) PInf = sign_inf a"
| "fl_mul (Fin a) NInf = sign_inf (- a)"
| "fl_mul PInf (Fin b) = sign_inf b"
| "fl_mul NInf (Fin b) = sign_inf (- b)"
| "fl_mul PInf PInf = PInf"
| "fl_mul NInf NInf = PInf"
| "fl_mul PInf NInf = NInf"
| "fl_mul NInf PInf = NInf"

fun fl_div :: "fl \<Rightarrow> fl \<Rightarrow> fl" where
  "fl_div (Fin a) (Fin b) = (if b = 0 then sign_inf a else Fin (a / b))"
| "fl_div NaN y = NaN"
| "fl_div x NaN = NaN"
| "fl_div (Fin a) PInf = Fin 0"
| "fl_div (Fin a) NInf = Fin 0"
| "fl_div PInf (Fin b) = (if b < 0 then NInf else PInf)"
| "fl_div NInf (Fin b) = (if b < 0 then PInf else NInf)"
| "fl_div PInf PInf = NaN"
| "fl_div PInf NInf = NaN"
| "fl_div NInf PInf = NaN"
| "fl_div NInf NInf = NaN"

text \<open>The comparison \<open>x > y\<close>: false as soon as one side is \<open>NaN\<close>.\<close>

fun fl_gt :: "fl \<Rightarrow> fl \<Rightarrow> bool" where
  "fl_gt (Fin a) (Fin b) = (b < a)"
| "fl_gt NaN y = False"
| "fl_gt x NaN = False"
| "fl_gt PInf PInf = False"
| "fl_gt PInf y = True"
| "fl_gt x PInf = False"
| "fl_gt NInf y = False"
| "fl_gt x NInf = True"

fun fl_sqrt :: "fl \<Rightarrow> fl" where
  "fl_sqrt NaN = NaN"
| "fl_sqrt NInf = NaN"
| "fl_sqrt PInf = PInf"
| "fl_sqrt (Fin a) = (if a < 0 then NaN else Fin (sqrt a))"

definition is_integral :: "real \<Rightarrow> bool" where
  "is_integral y = (real_of_int \<lfloor>y\<rfloor> = y)"

text \<open>
  \<open>x ** y\<close> on a numpy float64 \<open>x\<close> and a positive Python float \<open>y\<close> (the only exponents
  the program uses are \<open>252 / len(df)\<close>): a negative base with a fractional exponent is
  \<open>NaN\<close> (numpy warns and does not raise).
\<close>

fun fl_pow :: "fl \<Rightarrow> real \<Rightarrow> fl" where
  "fl_pow NaN y = NaN"
| "fl_pow PInf y = PInf"
| "fl_pow NInf y = (if is_integral y \<and> odd \<lfloor>y\<rfloor> then NInf else PInf)"
| "fl_pow (Fin x) y =
     (if 0 < x then Fin (x powr y)
      else if x = 0 then Fin 0
      else if is_integral y then Fin (x powi \<lfloor>y\<rfloor>)
      else NaN)"

definition fl_sum :: "fl list \<Rightarrow> fl" where
  "fl_sum xs = foldl fl_add (Fin 0) xs"

definition notna :: "fl list \<Rightarrow> fl list" where
  "notna xs = filter (\<lambda>x. x \<noteq> NaN) xs"

section \<open>Data frames\<close>

text \<open>
  A frame has a row count (\<open>len(df)\<close>) and named columns in insertion order. In a frame
  of pandas every column has as many cells as the frame has rows and (for a frame read
  from a file) the names are distinct: \<open>wf_df\<close>.
\<close>

record dataframe =
  nrows :: nat
  columns :: "(string \<times> fl list) list"

definition wf_df :: "dataframe \<Rightarrow> bool" where
  "wf_df df = (distinct (map fst (columns df))
               \<and> list_all (\<lambda>kc. length (snd kc) = nrows df) (columns df))"

datatype exn =
    KeyError string
  | IndexError
  | ValueError
  | ZeroDivisionError
  | FileNotFoundError
  | EngineError string

text \<open>\<open>df[k]\<close> raises \<open>KeyError\<close> for a name that is no column.\<close>

definition df_col :: "dataframe \<Rightarrow> string \<Rightarrow> exn + fl list" where
  "df_col df k = (case map_of (columns df) k of None \<Rightarrow> Inl (KeyError k) | Some c \<Rightarrow> Inr c)"

text \<open>\<open>df[k] = c\<close> replaces the column in place, or appends it as the last column.\<close>

definition df_set :: "dataframe \<Rightarrow> string \<Rightarrow> fl list \<Rightarrow> dataframe" where
  "df_set df k c = df\<lparr>columns := AList.update k c (columns df)\<rparr>"

section \<open>The feature stage: \<open>preprocess_data\<close>\<close>

text \<open>\<open>Series.mean()\<close> skips missing cells; the mean of no cell at all is \<open>NaN\<close>.\<close>

definition col_mean :: "fl list \<Rightarrow> fl" where
  "col_mean c = (let obs = notna c in
     if obs = [] then NaN else fl_div (fl_sum obs) (Fin (real (length obs))))"

text \<open>
  \<open>df.fillna(df.mean())\<close> builds a new frame in which every missing cell holds the mean
  of its column; a column whose mean is \<open>NaN\<close> is left as it is.
\<close>

definition fillna_col :: "fl list \<Rightarrow> fl list" where
  "fillna_col c = (let m = col_mean c in map (\<lambda>x. if x = NaN then m else x) c)"

definition fillna_mean :: "dataframe \<Rightarrow> dataframe" where
  "fillna_mean df = df\<lparr>columns := map (\<lambda>kc. (fst kc, fillna_col (snd kc))) (columns df)\<rparr>"

text \<open>
  \<open>rolling(window=w).mean()\<close>: the value at a row is computed from the last \<open>w\<close> cells up
  to and including that row, and is \<open>NaN\<close> unless these hold \<open>w\<close> observations
  (\<open>min_periods\<close> defaults to the window). A rolling window of pandas first turns every
  infinite cell into a missing one, so the observations are the finite cells only.
  \<open>hist\<close> holds the cells already passed, the latest first.
\<close>

fun is_number :: "fl \<Rightarrow> bool" where
  "is_number (Fin a) = True"
| "is_number NaN = False"
| "is_number NInf = False"
| "is_number PInf = False"

definition window_mean :: "nat \<Rightarrow> fl list \<Rightarrow> fl" where
  "window_mean w win = (let obs = filter is_number win in
     if length obs < w then NaN else fl_div (fl_sum obs) (Fin (real (length obs))))"

primrec rolling_from :: "nat \<Rightarrow> fl list \<Rightarrow> fl list \<Rightarrow> fl list" where
  "rolling_from w hist [] = []"
| "rolling_from w hist (x # xs) =
     window_mean w (take w (x # hist)) # rolling_from w (x # hist) xs"

definition rolling_mean :: "nat \<Rightarrow> fl list \<Rightarrow> fl list" where
  "rolling_mean w c = rolling_from w [] c"

text \<open>The body of the \<open>try\<close> block of \<open>preprocess_data\<close>.\<close>

definition preprocess_try :: "dataframe \<Rightarrow> exn + dataframe option" where
  "preprocess_try df =
     (let df_filled = fillna_mean df in
      case df_col df_filled ''Close'' of
        Inl e \<Rightarrow> Inl e
      | Inr close \<Rightarrow> Inr (Some (df_set df_filled ''MA_5'' (rolling_mean 5 close))))"

text \<open>
  Every stage function has the shape \<open>try: ... except Exception as e: print(...); return None\<close>.
  The body of a \<open>try\<close> block is modelled by its outcome: \<open>Inl e\<close> when it raises \<open>e\<close>,
  \<open>Inr r\<close> when it returns \<open>r\<close>. The handler turns a raise into the return value \<open>None\<close>.
  The exceptions of the model are instances of \<open>Exception\<close>, which is what the handlers
  catch; the printed messages are not modelled.
\<close>

definition try_except :: "exn + 'a option \<Rightarrow> 'a option" where
  "try_except body = (case body of Inl e \<Rightarrow> None | Inr r \<Rightarrow> r)"

definition preprocess_data :: "dataframe option \<Rightarrow> dataframe option" where
  "preprocess_data df = (case df of None \<Rightarrow> None | Some d \<Rightarrow> try_except (preprocess_try d))"

section \<open>The backtest engine: \<open>run_backtest\<close>\<close>

text \<open>\<open>np.where(df['MA_5'] > df['Close'], 1, -1)\<close>, row by row.\<close>

definition np_where_gt :: "fl list \<Rightarrow> fl list \<Rightarrow> fl list" where
  "np_where_gt ma close = map2 (\<lambda>m c. if fl_gt m c then Fin 1 else Fin (- 1)) ma close"

text \<open>\<open>Series.shift(1)\<close>: every cell moves one row down, the first row is missing.\<close>

definition shift1 :: "fl list \<Rightarrow> fl list" where
  "shift1 c = (if c = [] then [] else NaN # butlast c)"

text \<open>
  \<open>Series.pct_change()\<close> is \<open>c / c.shift(1) - 1\<close>. Older versions of pandas first fill a
  missing cell from the cell above; this is not modelled (it changes nothing on a column
  without missing cells, or with only missing cells, as the feature stage leaves them).
\<close>

definition pct_change :: "fl list \<Rightarrow> fl list" where
  "pct_change c = map2 (\<lambda>cur prev. fl_sub (fl_div cur prev) (Fin 1)) c (shift1 c)"

text \<open>
  \<open>Series.cumprod()\<close> skips missing cells: the result is missing there and the running
  product goes on unchanged.
\<close>

primrec cumprod_from :: "fl \<Rightarrow> fl list \<Rightarrow> fl list" where
  "cumprod_from acc [] = []"
| "cumprod_from acc (x # xs) =
     (if x = NaN then NaN # cumprod_from acc xs
      else fl_mul acc x # cumprod_from (fl_mul acc x) xs)"

definition cumprod :: "fl list \<Rightarrow> fl list" where
  "cumprod c = cumprod_from (Fin 1) c"

text \<open>\<open>Series.std()\<close>: sample standard deviation (\<open>ddof = 1\<close>) of the cells that are not missing.\<close>

definition series_std :: "fl list \<Rightarrow> fl" where
  "series_std c = (let obs = notna c; n = length obs in
     if n \<le> 1 then NaN
     else let avg = fl_div (fl_sum obs) (Fin (real n));
              sqr = map (\<lambda>x. fl_mul (fl_sub avg x) (fl_sub avg x)) obs
          in fl_sqrt (fl_div (fl_sum sqr) (Fin (real (n - 1)))))"

text \<open>\<open>s.iloc[-1]\<close> raises \<open>IndexError\<close> on a series without rows.\<close>

definition iloc_last :: "fl list \<Rightarrow> exn + fl" where
  "iloc_last c = (if c = [] then Inl IndexError else Inr (last c))"

text \<open>
  Python values as they occur in the result dictionaries. A dictionary is an association
  list in insertion order. \<open>PyR\<close> is an R object held through rpy2, \<open>PyOpaque\<close> a value
  returned by the MATLAB engine.
\<close>

datatype rvalue = RObject nat | ListVector "(string \<times> rvalue) list"

datatype pyval =
    PyInt int
  | PyFloat fl
  | PyList "pyval list"
  | PyDict "(string \<times> pyval) list"
  | PyR rvalue
  | PyOpaque nat

text \<open>
  The body of the \<open>try\<close> block of \<open>run_backtest\<close>. The four assignments \<open>df[...] = ...\<close>
  change the frame the caller passed, so the frame is returned with the outcome. Both
  required columns are read before the first assignment; a column read back after its
  assignment is the value just assigned.
\<close>

definition run_backtest_try ::
  "dataframe \<Rightarrow> dataframe \<times> (exn + (string \<times> pyval) list option)" where
  "run_backtest_try df =
    (case df_col df ''MA_5'' of Inl e \<Rightarrow> (df, Inl e) | Inr ma \<Rightarrow>
     case df_col df ''Close'' of Inl e \<Rightarrow> (df, Inl e) | Inr close \<Rightarrow>
       let position = np_where_gt ma close;
           lagged_position = shift1 position;
           returns = pct_change close;
           strategy_returns = map2 fl_mul lagged_position returns;
           df' = df_set (df_set (df_set (df_set df
                   ''Position'' position)
                   ''Lagged_Position'' lagged_position)
                   ''Returns'' returns)
                   ''Strategy_Returns'' strategy_returns;
           cumulative_returns =
             map (\<lambda>x. fl_sub x (Fin 1)) (cumprod (map (\<lambda>x. fl_add x (Fin 1)) strategy_returns))
       in case iloc_last cumulative_returns of Inl e \<Rightarrow> (df', Inl e) | Inr total_return \<Rightarrow>
          if nrows df = 0 then (df', Inl ZeroDivisionError)
          else
            let average_annual_return =
                  fl_sub (fl_pow (fl_add total_return (Fin 1)) (252 / real (nrows df))) (Fin 1);
                annualized_volatility = fl_mul (series_std strategy_returns) (fl_sqrt (Fin 252));
                sharpe_ratio =
                  (if fl_gt annualized_volatility (Fin 0)
                   then PyFloat (fl_div average_annual_return annualized_volatility)
                   else PyInt 0)
            in (df', Inr (Some
                  [(''cumulative_returns'', PyList (map PyFloat cumulative_returns)),
                   (''total_return'', PyFloat total_return),
                   (''average_annual_return'', PyFloat average_annual_return),
                   (''annualized_volatility'', PyFloat annualized_volatility),
                   (''sharpe_ratio'', sharpe_ratio)])))"

text \<open>
  \<open>run_backtest\<close>: the first component is the caller's frame after the call, the second
  the returned value.
\<close>

definition run_backtest :: "dataframe option \<Rightarrow> dataframe option \<times> (string \<times> pyval) list option" where
  "run_backtest df =
     (case df of
        None \<Rightarrow> (None, None)
      | Some d \<Rightarrow> (let (d', r) = run_backtest_try d in (Some d', try_except r)))"

section \<open>The external adapters\<close>

text \<open>
  \<open>run_r_analysis\<close>. What R does is a parameter: for a script path and a frame,
  \<open>r_engine\<close> gives the outcome of sourcing the script, looking up \<open>perform_analysis\<close>,
  converting the frame, calling the function and iterating the items of its result; any
  of these may raise. The loop that builds \<open>result_dict\<close> is modelled as written: the items
  of a \<open>ListVector\<close> are copied into a dictionary, any other value is stored as it is.
\<close>

type_synonym r_engine = "string \<Rightarrow> dataframe \<Rightarrow> exn + (string \<times> rvalue) list"

definition dict_of :: "(string \<times> 'v) list \<Rightarrow> (string \<times> 'v) list" where
  "dict_of items = fold (\<lambda>kv d. AList.update (fst kv) (snd kv) d) items []"

definition convert_item :: "rvalue \<Rightarrow> pyval" where
  "convert_item v = (case v of
       ListVector items \<Rightarrow> PyDict (dict_of (map (\<lambda>kv. (fst kv, PyR (snd kv))) items))
     | RObject h \<Rightarrow> PyR (RObject h))"

definition run_r_analysis_try ::
  "r_engine \<Rightarrow> dataframe \<Rightarrow> string \<Rightarrow> exn + (string \<times> pyval) list option" where
  "run_r_analysis_try eng df r_script_path =
     (case eng r_script_path df of
        Inl e \<Rightarrow> Inl e
      | Inr items \<Rightarrow> Inr (Some (dict_of (map (\<lambda>kv. (fst kv, convert_item (snd kv))) items))))"

definition run_r_analysis ::
  "r_engine \<Rightarrow> dataframe option \<Rightarrow> string \<Rightarrow> (string \<times> pyval) list option" where
  "run_r_analysis eng df r_script_path =
     (case df of None \<Rightarrow> None | Some d \<Rightarrow> try_except (run_r_analysis_try eng d r_script_path))"

text \<open>
  \<open>run_matlab_simulation\<close>. The MATLAB engine is a parameter giving the outcome of each
  call made on it: \<open>None\<close> for a call that returns, \<open>Some e\<close> (or \<open>Inl e\<close>) for one that
  raises \<open>e\<close>. The session the call acquires is tracked: \<open>NoSession\<close> when
  \<open>start_matlab\<close> raised, \<open>Live\<close> from its return on, \<open>Released\<close> once \<open>quit\<close> has returned.
\<close>

record matlab_engine =
  start_matlab :: "exn option"
  eng_struct :: "(string \<times> fl list) list \<Rightarrow> exn option"
  eng_eval :: "string \<Rightarrow> exn + pyval"
  eng_quit :: "exn option"

datatype session = NoSession | Live | Released

text \<open>
  Lines 111 to 117: the columns as lists, padded with \<open>NaN\<close> to the longest;
  \<open>max\<close> of no length at all raises \<open>ValueError\<close>.
\<close>

definition pad_columns :: "(string \<times> fl list) list \<Rightarrow> exn + (string \<times> fl list) list" where
  "pad_columns data_dict =
     (if data_dict = [] then Inl ValueError
      else let max_len = fold max (map (\<lambda>kv. length (snd kv)) data_dict) 0
           in Inr (map (\<lambda>kv. (fst kv, snd kv @ replicate (max_len - length (snd kv)) NaN))
                       data_dict))"

definition run_matlab_simulation_try ::
  "matlab_engine \<Rightarrow> dataframe \<Rightarrow> string \<Rightarrow> session \<times> (exn + pyval option)" where
  "run_matlab_simulation_try eng df matlab_script_path =
     (case start_matlab eng of Some e \<Rightarrow> (NoSession, Inl e) | None \<Rightarrow>
      case pad_columns (columns df) of Inl e \<Rightarrow> (Live, Inl e) | Inr data_dict \<Rightarrow>
      case eng_struct eng data_dict of
        Some e \<Rightarrow>
          (case eng_quit eng of Some e' \<Rightarrow> (Live, Inl e') | None \<Rightarrow> (Released, Inr None))
      | None \<Rightarrow>
          (case eng_eval eng (''run('' @ [CHR 0x27] @ matlab_script_path @ [CHR 0x27] @ '')'') of
             Inl e \<Rightarrow> (Live, Inl e)
           | Inr result \<Rightarrow>
               (case eng_quit eng of
                  Some e \<Rightarrow> (Live, Inl e)
                | None \<Rightarrow> (Released, Inr (Some result)))))"

text \<open>
  The first component is the state of the session when \<open>run_matlab_simulation\<close> returns,
  the second the returned value.
\<close>

definition run_matlab_simulation ::
  "matlab_engine \<Rightarrow> dataframe option \<Rightarrow> string \<Rightarrow> session \<times> pyval option" where
  "run_matlab_simulation eng df matlab_script_path =
     (case df of
        None \<Rightarrow> (NoSession, None)
      | Some d \<Rightarrow> (let (s, r) = run_matlab_simulation_try eng d matlab_script_path
                   in (s, try_except r)))"

section \<open>Loading and the controller: \<open>load_data\<close> and \<open>main\<close>\<close>

record file_reader =
  read_csv :: "string \<Rightarrow> exn + dataframe"
  read_parquet :: "string \<Rightarrow> exn + dataframe"

definition load_data :: "file_reader \<Rightarrow> string \<Rightarrow> string \<Rightarrow> dataframe option" where
  "load_data fs file_path file_type =
     try_except
       (if file_type = ''csv'' then map_sum id Some (read_csv fs file_path)
        else if file_type = ''parquet'' then map_sum id Some (read_parquet fs file_path)
        else Inr None)"

text \<open>
  \<open>main\<close> returns nothing and prints its results. Its model returns the dictionary that
  line 224 binds to \<open>combined_results\<close>, and \<open>None\<close> when \<open>main\<close> returns before that line.
  The clock and the printed lines are not modelled.
\<close>

definition main ::
  "file_reader \<Rightarrow> r_engine \<Rightarrow> matlab_engine \<Rightarrow> string \<Rightarrow> string \<Rightarrow> string \<Rightarrow> string
   \<Rightarrow> (string \<times> pyval) list option" where
  "main fs reng meng data_file r_script matlab_script file_type =
     (case load_data fs data_file file_type of None \<Rightarrow> None | Some df \<Rightarrow>
      case preprocess_data (Some df) of None \<Rightarrow> None | Some df_processed \<Rightarrow>
        let r_results =
              (case run_r_analysis reng (Some df_processed) r_script of
                 None \<Rightarrow> [] | Some d \<Rightarrow> d);
            matlab_results =
              (case snd (run_matlab_simulation meng (Some df_processed) matlab_script) of
                 None \<Rightarrow> PyDict [] | Some v \<Rightarrow> v)
        in case snd (run_backtest (Some df_processed)) of
             None \<Rightarrow> None
           | Some backtest_results \<Rightarrow>
               Some [(''r_results'', PyDict r_results),
                     (''matlab_results'', matlab_results),
                     (''backtest_results'', PyDict backtest_results)])"

section \<open>Calls of the stage functions and raises outside \<open>Exception\<close>\<close>

text \<open>
  \<open>KeyboardInterrupt\<close> and \<open>SystemExit\<close> derive from \<open>BaseException\<close> and not from
  \<open>Exception\<close>: a handler \<open>except Exception\<close> does not catch them. Every handler of the
  stage functions is \<open>except Exception\<close> (the inner one of \<open>run_matlab_simulation\<close> as
  well), so such a raise inside a \<open>try\<close> block leaves the function. The exceptions of
  \<open>exn\<close>, raised by pandas and by the engines, are instances of \<open>Exception\<close>.

  The outcome of a call of a stage function is \<open>Inl s\<close> when the raise \<open>s\<close> reaches the
  caller and \<open>Inr v\<close> when the call returns \<open>v\<close>. The argument \<open>interrupt\<close> is the raise
  outside \<open>Exception\<close> that occurs while the \<open>try\<close> block runs, if there is one (the user
  interrupts the process during a call of the engine, say). The test \<open>if df is None\<close>
  stands before the \<open>try\<close> block.
\<close>

datatype signal = KeyboardInterrupt | SystemExit

definition try_except_call :: "signal option \<Rightarrow> exn + 'a option \<Rightarrow> signal + 'a option" where
  "try_except_call interrupt body =
     (case interrupt of Some s \<Rightarrow> Inl s | None \<Rightarrow> Inr (try_except body))"

definition preprocess_data_call ::
  "signal option \<Rightarrow> dataframe option \<Rightarrow> signal + dataframe option" where
  "preprocess_data_call interrupt df =
     (case df of None \<Rightarrow> Inr None
      | Some d \<Rightarrow> try_except_call interrupt (preprocess_try d))"

definition run_r_analysis_call ::
  "signal option \<Rightarrow> r_engine \<Rightarrow> dataframe option \<Rightarrow> string
   \<Rightarrow> signal + (string \<times> pyval) list option" where
  "run_r_analysis_call interrupt eng df r_script_path =
     (case df of None \<Rightarrow> Inr None
      | Some d \<Rightarrow> try_except_call interrupt (run_r_analysis_try eng d r_script_path))"

definition run_matlab_simulation_call ::
  "signal option \<Rightarrow> matlab_engine \<Rightarrow> dataframe option \<Rightarrow> string \<Rightarrow> signal + pyval option" where
  "run_matlab_simulation_call interrupt eng df matlab_script_path =
     (case df of None \<Rightarrow> Inr None
      | Some d \<Rightarrow>
          try_except_call interrupt (snd (run_matlab_simulation_try eng d matlab_script_path)))"

definition run_backtest_call ::
  "signal option \<Rightarrow> dataframe option \<Rightarrow> signal + (string \<times> pyval) list option" where
  "run_backtest_call interrupt df =
     (case df of None \<Rightarrow> Inr None
      | Some d \<Rightarrow> try_except_call interrupt (snd (run_backtest_try d)))"

text \<open>The command that \<open>run_matlab_simulation\<close> evaluates for a script path.\<close>

definition run_command :: "string \<Rightarrow> string" where
  "run_command matlab_script_path = ''run('' @ [CHR 0x27] @ matlab_script_path @ [CHR 0x27] @ '')''"

section \<open>Notions used to state the properties\<close>



text \<open>
  Names for the series that \<open>run_backtest\<close> computes from the two columns it reads, and
  for the frame it leaves behind (the four assignments of lines 150 to 153).
\<close>

definition strategy_returns_of :: "fl list \<Rightarrow> fl list \<Rightarrow> fl list" where
  "strategy_returns_of ma close = map2 fl_mul (shift1 (np_where_gt ma close)) (pct_change close)"

definition cumulative_returns_of :: "fl list \<Rightarrow> fl list" where
  "cumulative_returns_of sr =
     map (\<lambda>x. fl_sub x (Fin 1)) (cumprod (map (\<lambda>x. fl_add x (Fin 1)) sr))"

definition backtest_frame :: "dataframe \<Rightarrow> fl list \<Rightarrow> fl list \<Rightarrow> dataframe" where
  "backtest_frame df ma close =
     df_set (df_set (df_set (df_set df
       ''Position'' (np_where_gt ma close))
       ''Lagged_Position'' (shift1 (np_where_gt ma close)))
       ''Returns'' (pct_change close))
       ''Strategy_Returns'' (strategy_returns_of ma close)"

text \<open>Reading a column of the frame a stage returned, and an entry of a returned dictionary.\<close>

definition frame_col :: "dataframe option \<Rightarrow> string \<Rightarrow> fl list option" where
  "frame_col d k = (case d of None \<Rightarrow> None
     | Some df \<Rightarrow> (case df_col df k of Inl e \<Rightarrow> None | Inr c \<Rightarrow> Some c))"

definition result_get :: "(string \<times> pyval) list option \<Rightarrow> string \<Rightarrow> pyval option" where
  "result_get r k = (case r of None \<Rightarrow> None | Some d \<Rightarrow> map_of d k)"

text \<open>The four columns that \<open>run_backtest\<close> assigns.\<close>

definition signal_columns :: "string list" where
  "signal_columns = [''Position'', ''Lagged_Position'', ''Returns'', ''Strategy_Returns'']"

text \<open>The keys of the dictionary that \<open>run_backtest\<close> returns.\<close>

definition metric_keys :: "string list" where
  "metric_keys = [''cumulative_returns'', ''total_return'', ''average_annual_return'',
                  ''annualized_volatility'', ''sharpe_ratio'']"

section \<open>Concrete inputs\<close>

text \<open>The scenario of the specification: seven closing prices, and the frame the feature
  stage makes of them.\<close>

definition scenario_raw :: dataframe where
  "scenario_raw = \<lparr>nrows = 7,
     columns = [(''Close'', [Fin 100, Fin 102, Fin 101, Fin 105, Fin 107, Fin 106, Fin 110])]\<rparr>"

definition scenario_processed :: dataframe where
  "scenario_processed = \<lparr>nrows = 7,
     columns = [(''Close'', [Fin 100, Fin 102, Fin 101, Fin 105, Fin 107, Fin 106, Fin 110]),
                (''MA_5'', [NaN, NaN, NaN, NaN, Fin 103, Fin (521 / 5), Fin (529 / 5)])]\<rparr>"

text \<open>The frame of the scenario after \<open>run_backtest\<close> has run on it.\<close>

definition scenario_backtested :: dataframe where
  "scenario_backtested = \<lparr>nrows = 7,
     columns = [(''Close'', [Fin 100, Fin 102, Fin 101, Fin 105, Fin 107, Fin 106, Fin 110]),
                (''MA_5'', [NaN, NaN, NaN, NaN, Fin 103, Fin (521 / 5), Fin (529 / 5)]),
                (''Position'', [Fin (- 1), Fin (- 1), Fin (- 1), Fin (- 1), Fin (- 1),
                                Fin (- 1), Fin (- 1)]),
                (''Lagged_Position'', [NaN, Fin (- 1), Fin (- 1), Fin (- 1), Fin (- 1),
                                       Fin (- 1), Fin (- 1)]),
                (''Returns'', [NaN, Fin (1 / 50), Fin (- (1 / 102)), Fin (4 / 101),
                               Fin (2 / 105), Fin (- (1 / 107)), Fin (2 / 53)]),
                (''Strategy_Returns'', [NaN, Fin (- (1 / 50)), Fin (1 / 102), Fin (- (4 / 101)),
                                        Fin (- (2 / 105)), Fin (1 / 107), Fin (- (2 / 53))])]\<rparr>"

text \<open>The dictionary \<open>run_backtest\<close> returns for the scenario.\<close>

definition scenario_metrics :: "(string \<times> pyval) list" where
  "scenario_metrics =
     [(''cumulative_returns'',
         PyList [PyFloat NaN, PyFloat (Fin (- (1 / 50))), PyFloat (Fin (- (53 / 5100))),
                 PyFloat (Fin (- (25541 / 515100))), PyFloat (Fin (- (522989 / 7726500))),
                 PyFloat (Fin (- (1354342 / 22964875))),
                 PyFloat (Fin (- (6764776 / 71596375)))]),
      (''total_return'', PyFloat (Fin (- (6764776 / 71596375)))),
      (''average_annual_return'', PyFloat (Fin ((64831599 / 71596375) ^ 36 - 1))),
      (''annualized_volatility'',
         PyFloat (Fin (sqrt (24699027613906091 / 52264703067108761250) * sqrt 252))),
      (''sharpe_ratio'',
         PyFloat (Fin (((64831599 / 71596375) ^ 36 - 1) /
                       (sqrt (24699027613906091 / 52264703067108761250) * sqrt 252))))]"

text \<open>A processed frame of a single row.\<close>

definition single_row :: dataframe where
  "single_row = \<lparr>nrows = 1, columns = [(''Close'', [Fin 100]), (''MA_5'', [NaN])]\<rparr>"

text \<open>Eight closing prices, the price tripling on the sixth day.\<close>

definition tripling_raw :: dataframe where
  "tripling_raw = \<lparr>nrows = 8,
     columns = [(''Close'', [Fin 1, Fin 1, Fin 1, Fin 1, Fin 1, Fin 3, Fin 3, Fin 3])]\<rparr>"


text \<open>A frame without a \<open>Close\<close> column.\<close>

definition no_close :: dataframe where
  "no_close = \<lparr>nrows = 2, columns = [(''Open'', [Fin 1, Fin 2])]\<rparr>"

text \<open>A file system holding the scenario as \<open>data.csv\<close>.\<close>

definition scenario_files :: file_reader where
  "scenario_files = \<lparr>
     read_csv = (\<lambda>path. if path = ''data.csv'' then Inr scenario_raw else Inl FileNotFoundError),
     read_parquet = (\<lambda>path. Inl FileNotFoundError)\<rparr>"

text \<open>An R engine whose script cannot be sourced, and one that returns a single item.\<close>

definition r_unavailable :: r_engine where
  "r_unavailable = (\<lambda>path df. Inl (EngineError ''R''))"

definition r_answering :: r_engine where
  "r_answering = (\<lambda>path df. Inr [(''summary'', RObject 0)])"

text \<open>
  MATLAB engines: one that cannot be started, one on which every call returns, one whose
  \<open>eval\<close> raises (a script that is missing or fails), and one whose \<open>struct\<close> raises.
\<close>

definition matlab_unavailable :: matlab_engine where
  "matlab_unavailable = \<lparr>start_matlab = Some (EngineError ''MATLAB''),
     eng_struct = (\<lambda>d. None), eng_eval = (\<lambda>cmd. Inr (PyOpaque 0)), eng_quit = None\<rparr>"

definition matlab_answering :: matlab_engine where
  "matlab_answering = \<lparr>start_matlab = None,
     eng_struct = (\<lambda>d. None), eng_eval = (\<lambda>cmd. Inr (PyOpaque 0)), eng_quit = None\<rparr>"

definition matlab_eval_fails :: matlab_engine where
  "matlab_eval_fails = \<lparr>start_matlab = None,
     eng_struct = (\<lambda>d. None), eng_eval = (\<lambda>cmd. Inl (EngineError ''run'')), eng_quit = None\<rparr>"

definition matlab_struct_fails :: matlab_engine where
  "matlab_struct_fails = \<lparr>start_matlab = None,
     eng_struct = (\<lambda>d. Some (EngineError ''struct'')),
     eng_eval = (\<lambda>cmd. Inr (PyOpaque 0)), eng_quit = None\<rparr>"

section \<open>Basic facts about cells and frames\<close>


lemma fl_add_NaN_right [simp]: "fl_add x NaN = NaN"
  by (cases x) simp_all

lemma fl_add_commute: "fl_add x y = fl_add y x"
  by (cases x; cases y) simp_all

lemma fl_add_assoc: "fl_add (fl_add x y) z = fl_add x (fl_add y z)"
  by (cases x; cases y; cases z) simp_all

lemma fl_div_NaN_left [simp]: "fl_div NaN y = NaN"
  by simp

lemma df_col_df_set_same: "df_col (df_set df k c) k = Inr c"
  by (simp add: df_col_def df_set_def update_conv')

lemma df_col_df_set_other: "k' \<noteq> k \<Longrightarrow> df_col (df_set df k c) k' = df_col df k'"
  by (simp add: df_col_def df_set_def update_conv')

lemma nrows_df_set: "nrows (df_set df k c) = nrows df"
  by (simp add: df_set_def)

lemma df_set_df_set_same: "df_set (df_set df k c) k c' = df_set df k c'"
  by (simp add: df_set_def)

lemma list_all_update: "list_all P al \<Longrightarrow> P (k, v) \<Longrightarrow> list_all P (AList.update k v al)"
  by (induction al) auto

lemma wf_df_df_set: "wf_df df \<Longrightarrow> length c = nrows df \<Longrightarrow> wf_df (df_set df k c)"
  by (simp add: wf_df_def df_set_def distinct_update list_all_update)

lemma df_col_length: "wf_df df \<Longrightarrow> df_col df k = Inr c \<Longrightarrow> length c = nrows df"
  by (auto simp: wf_df_def df_col_def list_all_iff split: option.splits dest!: map_of_SomeD)

lemma length_fillna_col: "length (fillna_col c) = length c"
  by (simp add: fillna_col_def Let_def)

lemma wf_df_fillna_mean: "wf_df df \<Longrightarrow> wf_df (fillna_mean df)"
  by (auto simp: wf_df_def fillna_mean_def list_all_iff comp_def length_fillna_col)

lemma map_of_fillna: "map_of (map (\<lambda>kc. (fst kc, f (snd kc))) al) k = map_option f (map_of al k)"
  by (induction al) auto

lemma df_col_fillna_mean:
  "df_col (fillna_mean df) k = map_sum id fillna_col (df_col df k)"
  by (simp add: df_col_def fillna_mean_def map_of_fillna split: option.splits)




lemma fl_add_left_commute: "fl_add x (fl_add y z) = fl_add y (fl_add x z)"
  by (cases x; cases y; cases z) simp_all

lemmas fl_add_ac = fl_add_assoc fl_add_commute fl_add_left_commute











lemma notna_fix: "NaN \<notin> set c \<Longrightarrow> map (\<lambda>x. if x = NaN then m else x) c = c"
  by (induction c) auto

lemma fillna_col_idem: "fillna_col (fillna_col c) = fillna_col c"
proof (cases "col_mean c = NaN")
  case True
  then have "fillna_col c = c"
    by (simp add: fillna_col_def map_idI)
  then show ?thesis by simp
next
  case False
  then have "NaN \<notin> set (fillna_col c)"
    by (auto simp: fillna_col_def)
  then show ?thesis
    using notna_fix[of "fillna_col c"] by (simp add: fillna_col_def[of "fillna_col c"])
qed


lemma map_update_fillna:
  "map (\<lambda>kc. (fst kc, f (snd kc))) (AList.update k c al)
   = AList.update k (f c) (map (\<lambda>kc. (fst kc, f (snd kc))) al)"
  by (induction al) auto

lemma fillna_mean_df_set: "fillna_mean (df_set df k c) = df_set (fillna_mean df) k (fillna_col c)"
  by (simp add: fillna_mean_def df_set_def map_update_fillna)

lemma fillna_mean_idem: "fillna_mean (fillna_mean df) = fillna_mean df"
  by (simp add: fillna_mean_def comp_def fillna_col_idem)


lemma preprocess_data_Some:
  "df_col df ''Close'' = Inr raw \<Longrightarrow>
   preprocess_data (Some df)
     = Some (df_set (fillna_mean df) ''MA_5'' (rolling_mean 5 (fillna_col raw)))"
  by (simp add: preprocess_data_def preprocess_try_def try_except_def df_col_fillna_mean)

lemma preprocess_data_None:
  "df_col df ''Close'' = Inl e \<Longrightarrow> preprocess_data (Some df) = None"
  by (simp add: preprocess_data_def preprocess_try_def try_except_def df_col_fillna_mean)

lemma preprocess_data_twice:
  "preprocess_data (preprocess_data df) = preprocess_data df"
proof (cases df)
  case None
  then show ?thesis by (simp add: preprocess_data_def)
next
  case (Some d)
  show ?thesis
  proof (cases "df_col d ''Close''")
    case (Inl e)
    with Some show ?thesis
      by (simp add: preprocess_data_None) (simp add: preprocess_data_def)
  next
    case (Inr raw)
    let ?ma = "rolling_mean 5 (fillna_col raw)"
    let ?d1 = "df_set (fillna_mean d) ''MA_5'' ?ma"
    have once: "preprocess_data (Some d) = Some ?d1"
      using Inr by (rule preprocess_data_Some)
    have close1: "df_col ?d1 ''Close'' = Inr (fillna_col raw)"
      using Inr by (simp add: df_col_df_set_other df_col_fillna_mean)
    have "preprocess_data (Some ?d1)
          = Some (df_set (fillna_mean ?d1) ''MA_5'' (rolling_mean 5 (fillna_col (fillna_col raw))))"
      using close1 by (rule preprocess_data_Some)
    also have "\<dots> = Some ?d1"
      by (simp add: fillna_mean_df_set fillna_mean_idem fillna_col_idem df_set_df_set_same)
    finally show ?thesis
      using Some once by simp
  qed
qed


section \<open>Facts about the backtest engine\<close>


lemma length_np_where_gt: "length (np_where_gt ma close) = min (length ma) (length close)"
  by (simp add: np_where_gt_def)

lemma length_shift1: "length (shift1 c) = length c"
  by (simp add: shift1_def)

lemma length_pct_change: "length (pct_change c) = length c"
  by (simp add: pct_change_def length_shift1)

lemma length_cumprod_from: "length (cumprod_from acc c) = length c"
  by (induction c arbitrary: acc) simp_all

lemma length_strategy_returns_of:
  "length (strategy_returns_of ma close) = min (length ma) (length close)"
  by (simp add: strategy_returns_of_def length_shift1 length_np_where_gt length_pct_change)

lemma length_cumulative_returns_of: "length (cumulative_returns_of sr) = length sr"
  by (simp add: cumulative_returns_of_def cumprod_def length_cumprod_from)

lemma run_backtest_missing_ma:
  "df_col df ''MA_5'' = Inl e \<Longrightarrow> run_backtest (Some df) = (Some df, None)"
  by (simp add: run_backtest_def run_backtest_try_def try_except_def)

lemma run_backtest_missing_close:
  "df_col df ''MA_5'' = Inr ma \<Longrightarrow> df_col df ''Close'' = Inl e \<Longrightarrow>
   run_backtest (Some df) = (Some df, None)"
  by (simp add: run_backtest_def run_backtest_try_def try_except_def)

lemma run_backtest_frame:
  "df_col df ''MA_5'' = Inr ma \<Longrightarrow> df_col df ''Close'' = Inr close \<Longrightarrow>
   fst (run_backtest (Some df)) = Some (backtest_frame df ma close)"
  by (simp add: run_backtest_def run_backtest_try_def backtest_frame_def strategy_returns_of_def
      Let_def split: sum.splits prod.splits)

lemma run_backtest_result:
  assumes "df_col df ''MA_5'' = Inr ma" and "df_col df ''Close'' = Inr close"
  shows "snd (run_backtest (Some df)) =
    (let sr = strategy_returns_of ma close;
         cum = cumulative_returns_of sr;
         avg = fl_sub (fl_pow (fl_add (last cum) (Fin 1)) (252 / real (nrows df))) (Fin 1);
         vol = fl_mul (series_std sr) (fl_sqrt (Fin 252))
     in if cum = [] \<or> nrows df = 0 then None
        else Some [(''cumulative_returns'', PyList (map PyFloat cum)),
                   (''total_return'', PyFloat (last cum)),
                   (''average_annual_return'', PyFloat avg),
                   (''annualized_volatility'', PyFloat vol),
                   (''sharpe_ratio'',
                      if fl_gt vol (Fin 0) then PyFloat (fl_div avg vol) else PyInt 0)])"
  using assms
  by (simp add: run_backtest_def run_backtest_try_def strategy_returns_of_def
      cumulative_returns_of_def iloc_last_def try_except_def Let_def)


lemmas frame_defs = df_col_def df_set_def fillna_mean_def fillna_col_def col_mean_def notna_def
  fl_sum_def window_mean_def rolling_mean_def
lemmas stage_defs = preprocess_data_def preprocess_try_def try_except_def
lemmas series_defs = np_where_gt_def shift1_def pct_change_def cumprod_def fl_sub_def
  iloc_last_def series_std_def sign_inf_def

lemma fl_sqrt_nonneg: "\<not> fl_gt (Fin 0) (fl_sqrt x)"
  by (cases x) simp_all

lemma series_std_nonneg: "\<not> fl_gt (Fin 0) (series_std c)"
  by (simp add: series_std_def Let_def fl_sqrt_nonneg)

lemma volatility_nonneg: "\<not> fl_gt (Fin 0) (fl_mul (series_std c) (fl_sqrt (Fin 252)))"
  using series_std_nonneg[of c]
  by (cases "series_std c") (simp_all add: sign_inf_def not_less mult_nonneg_nonneg)

lemma df_set_triv: "df_col df k = Inr c \<Longrightarrow> df_set df k c = df"
  by (simp add: df_col_def df_set_def update_triv split: option.splits)

lemma backtest_frame_cols:
  "df_col (backtest_frame df ma close) ''MA_5'' = df_col df ''MA_5''"
  "df_col (backtest_frame df ma close) ''Close'' = df_col df ''Close''"
  "nrows (backtest_frame df ma close) = nrows df"
  by (simp_all add: backtest_frame_def df_col_df_set_other nrows_df_set)

lemma backtest_frame_other:
  "k \<notin> set signal_columns \<Longrightarrow> df_col (backtest_frame df ma close) k = df_col df k"
  by (simp add: backtest_frame_def signal_columns_def df_col_df_set_other)

lemma names_df_set: "fst ` set (columns (df_set df k c)) = insert k (fst ` set (columns df))"
  by (simp add: df_set_def dom_update)

lemma backtest_frame_names:
  "fst ` set (columns (backtest_frame df ma close))
   = fst ` set (columns df) \<union> set signal_columns"
  unfolding backtest_frame_def signal_columns_def names_df_set by auto

lemma backtest_frame_idem:
  "backtest_frame (backtest_frame df ma close) ma close = backtest_frame df ma close"
proof -
  let ?d = "backtest_frame df ma close"
  have p: "df_col ?d ''Position'' = Inr (np_where_gt ma close)"
    by (simp add: backtest_frame_def df_col_df_set_other df_col_df_set_same)
  have l: "df_col ?d ''Lagged_Position'' = Inr (shift1 (np_where_gt ma close))"
    by (simp add: backtest_frame_def df_col_df_set_other df_col_df_set_same)
  have r: "df_col ?d ''Returns'' = Inr (pct_change close)"
    by (simp add: backtest_frame_def df_col_df_set_other df_col_df_set_same)
  have s: "df_col ?d ''Strategy_Returns'' = Inr (strategy_returns_of ma close)"
    by (simp add: backtest_frame_def df_col_df_set_same)
  show ?thesis
    unfolding backtest_frame_def[of ?d]
    by (simp add: df_set_triv[OF p] df_set_triv[OF l] df_set_triv[OF r] df_set_triv[OF s])
qed

lemma run_backtest_twice: "run_backtest (fst (run_backtest (Some df))) = run_backtest (Some df)"
proof (cases "df_col df ''MA_5''")
  case (Inl e)
  then show ?thesis by (simp add: run_backtest_missing_ma)
next
  case ma: (Inr ma)
  show ?thesis
  proof (cases "df_col df ''Close''")
    case (Inl e)
    with ma show ?thesis by (simp add: run_backtest_missing_close)
  next
    case (Inr close)
    let ?d = "backtest_frame df ma close"
    have ma': "df_col ?d ''MA_5'' = Inr ma" and close': "df_col ?d ''Close'' = Inr close"
      using ma Inr by (simp_all add: backtest_frame_cols)
    have "fst (run_backtest (Some ?d)) = fst (run_backtest (Some df))"
      by (simp add: run_backtest_frame[OF ma' close'] run_backtest_frame[OF ma Inr]
          backtest_frame_idem)
    moreover have "snd (run_backtest (Some ?d)) = snd (run_backtest (Some df))"
      by (simp add: run_backtest_result[OF ma' close'] run_backtest_result[OF ma Inr]
          backtest_frame_cols)
    ultimately show ?thesis
      by (simp add: run_backtest_frame[OF ma Inr] prod_eq_iff)
  qed
qed

lemma run_backtest_keys:
  assumes "snd (run_backtest (Some df)) = Some res"
  shows "map fst res = metric_keys"
proof (cases "df_col df ''MA_5''")
  case (Inl e)
  with assms show ?thesis by (simp add: run_backtest_missing_ma)
next
  case ma: (Inr ma)
  show ?thesis
  proof (cases "df_col df ''Close''")
    case (Inl e)
    with ma assms show ?thesis by (simp add: run_backtest_missing_close)
  next
    case (Inr close)
    show ?thesis
      using assms
      by (auto simp: run_backtest_result[OF ma Inr] Let_def metric_keys_def split: if_splits)
  qed
qed

section \<open>Evaluation on the concrete inputs\<close>

lemmas eval_defs = run_backtest_def run_backtest_try_def stage_defs frame_defs series_defs
  Let_def is_integral_def frame_col_def result_get_def

lemma wf_scenario_raw: "wf_df scenario_raw"
  by (simp add: wf_df_def scenario_raw_def)

lemma wf_scenario_processed: "wf_df scenario_processed"
  by (simp add: wf_df_def scenario_processed_def)

lemma scenario_preprocessed: "preprocess_data (Some scenario_raw) = Some scenario_processed"
  by (simp add: scenario_raw_def scenario_processed_def stage_defs frame_defs)

lemma scenario_backtest:
  "run_backtest (Some scenario_processed) = (Some scenario_backtested, Some scenario_metrics)"
  by (simp add: eval_defs scenario_processed_def scenario_backtested_def scenario_metrics_def)



section \<open>Facts about the adapters and the controller\<close>

lemma position_signal_rule:
  assumes "df_col df ''MA_5'' = Inr ma" and "df_col df ''Close'' = Inr close"
    and "i < length ma" and "i < length close"
  shows "frame_col (fst (run_backtest (Some df))) ''Position'' = Some (np_where_gt ma close)
       \<and> np_where_gt ma close ! i = (if fl_gt (ma ! i) (close ! i) then Fin 1 else Fin (- 1))"
  using assms
  by (simp add: run_backtest_frame frame_col_def backtest_frame_def df_col_df_set_other
      df_col_df_set_same np_where_gt_def)

lemma matlab_session_released_iff:
  "fst (run_matlab_simulation eng (Some df) script) = Released
   \<longleftrightarrow> start_matlab eng = None \<and> columns df \<noteq> [] \<and> eng_quit eng = None
       \<and> (\<forall>data e. pad_columns (columns df) = Inr data \<and> eng_struct eng data = None
              \<and> eng_eval eng (''run('' @ [CHR 0x27] @ script @ [CHR 0x27] @ '')'') = Inl e
            \<longrightarrow> False)"
  by (auto simp: run_matlab_simulation_def run_matlab_simulation_try_def pad_columns_def Let_def
      split: option.splits sum.splits prod.splits)

lemma main_Some:
  assumes "load_data fs data_file file_type = Some df"
    and "preprocess_data (Some df) = Some dfp"
    and "snd (run_backtest (Some dfp)) = Some bt"
  shows "main fs reng meng data_file r_script matlab_script file_type
         = Some [(''r_results'',
                    PyDict (case run_r_analysis reng (Some dfp) r_script of
                              None \<Rightarrow> [] | Some d \<Rightarrow> d)),
                 (''matlab_results'',
                    (case snd (run_matlab_simulation meng (Some dfp) matlab_script) of
                       None \<Rightarrow> PyDict [] | Some v \<Rightarrow> v)),
                 (''backtest_results'', PyDict bt)]"
  using assms by (simp add: main_def Let_def)

lemma scenario_loaded: "load_data scenario_files ''data.csv'' ''csv'' = Some scenario_raw"
  by (simp add: load_data_def scenario_files_def try_except_def)

lemma scenario_backtest_frame:
  "fst (run_backtest (Some scenario_processed)) = Some scenario_backtested"
  by (simp add: scenario_backtest)

lemma scenario_backtest_result:
  "snd (run_backtest (Some scenario_processed)) = Some scenario_metrics"
  by (simp add: scenario_backtest)

section \<open>The properties of the specification\<close>

text \<open>
  C1. The scenario of the specification, seven closing prices through the feature stage
  and the backtest engine. The code gives the moving average \<open>103\<close>, \<open>104.2\<close>, \<open>105.8\<close>
  at rows 4, 5 and 6 and no value before, Short at rows 4, 5 and 6, and the strategy
  returns \<open>1/107\<close> (about \<open>0.00935\<close>) and \<open>-2/53\<close> (about \<open>-0.03774\<close>) at rows 5 and 6,
  as the claim says. The cumulative return after row 6 is \<open>-6764776/71596375\<close>, about
  \<open>-0.0945\<close>, and not the \<open>-0.02888\<close> of the claim: rows 0 to 3 hold Short as well, so the
  strategy returns of rows 1 to 4 are numbers and enter the running product.
\<close>

theorem scenario_end_to_end:
  "preprocess_data (Some scenario_raw) = Some scenario_processed
   \<and> frame_col (Some scenario_processed) ''MA_5''
       = Some [NaN, NaN, NaN, NaN, Fin 103, Fin (521 / 5), Fin (529 / 5)]
   \<and> frame_col (fst (run_backtest (Some scenario_processed))) ''Position''
       = Some [Fin (- 1), Fin (- 1), Fin (- 1), Fin (- 1), Fin (- 1), Fin (- 1), Fin (- 1)]
   \<and> frame_col (fst (run_backtest (Some scenario_processed))) ''Strategy_Returns''
       = Some [NaN, Fin (- (1 / 50)), Fin (1 / 102), Fin (- (4 / 101)), Fin (- (2 / 105)),
               Fin (1 / 107), Fin (- (2 / 53))]
   \<and> result_get (snd (run_backtest (Some scenario_processed))) ''cumulative_returns''
       = Some (PyList [PyFloat NaN, PyFloat (Fin (- (1 / 50))), PyFloat (Fin (- (53 / 5100))),
                       PyFloat (Fin (- (25541 / 515100))), PyFloat (Fin (- (522989 / 7726500))),
                       PyFloat (Fin (- (1354342 / 22964875))),
                       PyFloat (Fin (- (6764776 / 71596375)))])
   \<and> result_get (snd (run_backtest (Some scenario_processed))) ''total_return''
       = Some (PyFloat (Fin (- (6764776 / 71596375))))
   \<and> \<bar>1 / 107 - 935 / 100000 :: real\<bar> < 1 / 100000
   \<and> \<bar>- (2 / 53) - (- (3774 / 100000)) :: real\<bar> < 1 / 100000
   \<and> 6 / 100 < \<bar>- (6764776 / 71596375) - (- (2888 / 100000)) :: real\<bar>"
  unfolding scenario_preprocessed scenario_backtest_frame scenario_backtest_result
  by (simp add: frame_col_def result_get_def df_col_def
      scenario_processed_def scenario_backtested_def scenario_metrics_def)

text \<open>
  C2. The position at a row whose moving average is missing. In the scenario the moving
  average is missing at rows 0 to 3, and the code stores Short (\<open>-1\<close>) there, not a missing
  marker: \<open>np.where\<close> takes its second value wherever the comparison is false, and a
  comparison with \<open>NaN\<close> is false. (Where the moving average is a number the position is
  Long or Short as the claim says: \<open>position_signal_rule\<close>.)
\<close>

theorem position_on_undefined_average:
  "frame_col (Some scenario_processed) ''MA_5''
       = Some [NaN, NaN, NaN, NaN, Fin 103, Fin (521 / 5), Fin (529 / 5)]
   \<and> frame_col (fst (run_backtest (Some scenario_processed))) ''Position''
       = Some [Fin (- 1), Fin (- 1), Fin (- 1), Fin (- 1), Fin (- 1), Fin (- 1), Fin (- 1)]"
  unfolding scenario_backtest_frame
  by (simp add: frame_col_def df_col_def scenario_processed_def scenario_backtested_def)

text \<open>
  C3, as the code has it. \<open>run_backtest\<close> changes the frame it is given: it assigns the
  four columns \<open>Position\<close>, \<open>Lagged_Position\<close>, \<open>Returns\<close> and \<open>Strategy_Returns\<close>. The row
  count and every other column (so \<open>Close\<close> and \<open>MA_5\<close>) are as before, no other column
  name appears, and a second call on the frame returns the same value as the first and
  leaves the frame as the first call left it.
\<close>

theorem run_backtest_frame_effect:
  assumes "run_backtest (Some df) = (Some df', res)"
  shows "nrows df' = nrows df
       \<and> (\<forall>k. k \<notin> set signal_columns \<longrightarrow> df_col df' k = df_col df k)
       \<and> set (map fst (columns df')) \<subseteq> set (map fst (columns df)) \<union> set signal_columns
       \<and> run_backtest (Some df') = (Some df', res)"
proof -
  have twice: "run_backtest (Some df') = (Some df', res)"
    using run_backtest_twice[of df] assms by simp
  show ?thesis
  proof (cases "df_col df ''MA_5''")
    case (Inl e)
    with assms twice show ?thesis by (auto simp: run_backtest_missing_ma)
  next
    case ma: (Inr ma)
    show ?thesis
    proof (cases "df_col df ''Close''")
      case (Inl e)
      with ma assms twice show ?thesis by (auto simp: run_backtest_missing_close)
    next
      case (Inr close)
      have "df' = backtest_frame df ma close"
        using run_backtest_frame[OF ma Inr] assms by simp
      then show ?thesis
        using twice by (simp add: backtest_frame_cols backtest_frame_other backtest_frame_names)
    qed
  qed
qed

theorem run_backtest_frame_effect_witness:
  "run_backtest (Some scenario_processed) = (Some scenario_backtested, Some scenario_metrics)
   \<and> nrows scenario_backtested = nrows scenario_processed
   \<and> df_col scenario_backtested ''Close'' = df_col scenario_processed ''Close''
   \<and> df_col scenario_backtested ''MA_5'' = df_col scenario_processed ''MA_5''
   \<and> run_backtest (Some scenario_backtested) = (Some scenario_backtested, Some scenario_metrics)"
  using run_backtest_frame_effect[OF scenario_backtest]
  by (simp add: scenario_backtest signal_columns_def)

text \<open>
  The claim as stated fails: after the call the frame of the scenario has four more
  columns.
\<close>

theorem run_backtest_changes_frame:
  "fst (run_backtest (Some scenario_processed)) = Some scenario_backtested
   \<and> map fst (columns scenario_processed) = [''Close'', ''MA_5'']
   \<and> map fst (columns scenario_backtested)
       = [''Close'', ''MA_5'', ''Position'', ''Lagged_Position'', ''Returns'', ''Strategy_Returns'']"
  unfolding scenario_backtest_frame
  by (simp add: scenario_processed_def scenario_backtested_def)

text \<open>
  C4, as the code has it. On a well-formed frame \<open>run_backtest\<close> returns \<open>None\<close> exactly
  when the column \<open>MA_5\<close> or the column \<open>Close\<close> is absent or the frame has no row at all;
  on every other frame it returns a dictionary with the five metric keys.
\<close>

theorem run_backtest_fails_iff:
  assumes "wf_df df"
  shows "(snd (run_backtest (Some df)) = None)
          = (df_col df ''MA_5'' = Inl (KeyError ''MA_5'')
             \<or> df_col df ''Close'' = Inl (KeyError ''Close'') \<or> nrows df = 0)
       \<and> (\<forall>res. snd (run_backtest (Some df)) = Some res \<longrightarrow> map fst res = metric_keys)"
proof (cases "df_col df ''MA_5''")
  case (Inl e)
  then have "e = KeyError ''MA_5''"
    by (simp add: df_col_def split: option.splits)
  with Inl show ?thesis by (simp add: run_backtest_missing_ma)
next
  case ma: (Inr ma)
  show ?thesis
  proof (cases "df_col df ''Close''")
    case (Inl e)
    then have "e = KeyError ''Close''"
      by (simp add: df_col_def split: option.splits)
    with Inl ma show ?thesis by (simp add: run_backtest_missing_close)
  next
    case (Inr close)
    have "length (cumulative_returns_of (strategy_returns_of ma close)) = nrows df"
      using df_col_length[OF assms ma] df_col_length[OF assms Inr]
      by (simp add: length_cumulative_returns_of length_strategy_returns_of)
    then have "(cumulative_returns_of (strategy_returns_of ma close) = []) = (nrows df = 0)"
      by (metis length_0_conv)
    then show ?thesis
      using ma Inr by (auto simp: run_backtest_result[OF ma Inr] Let_def metric_keys_def)
  qed
qed

theorem run_backtest_fails_iff_witness:
  "wf_df scenario_processed
   \<and> snd (run_backtest (Some scenario_processed)) = Some scenario_metrics
   \<and> map fst scenario_metrics = metric_keys
   \<and> wf_df no_close \<and> snd (run_backtest (Some no_close)) = None"
proof -
  have "wf_df no_close"
    by (simp add: wf_df_def no_close_def)
  then show ?thesis
    using run_backtest_fails_iff[OF wf_scenario_processed] run_backtest_fails_iff[of no_close]
    by (simp add: scenario_backtest wf_scenario_processed df_col_def no_close_def)
qed

text \<open>
  The claim as stated fails: a frame of one row, with both columns, is not refused. The
  engine returns a dictionary (whose numbers are all missing, and whose Sharpe ratio is 0).
\<close>

theorem single_row_backtest_succeeds:
  "wf_df single_row \<and> nrows single_row < 2
   \<and> df_col single_row ''Close'' = Inr [Fin 100] \<and> df_col single_row ''MA_5'' = Inr [NaN]
   \<and> snd (run_backtest (Some single_row))
       = Some [(''cumulative_returns'', PyList [PyFloat NaN]),
               (''total_return'', PyFloat NaN),
               (''average_annual_return'', PyFloat NaN),
               (''annualized_volatility'', PyFloat NaN),
               (''sharpe_ratio'', PyInt 0)]"
  by (simp add: eval_defs single_row_def wf_df_def)

text \<open>
  C5, as the code has it. Whenever \<open>run_backtest\<close> returns a dictionary, its Sharpe ratio
  is the annualized return divided by the annualized volatility when the volatility is
  greater than 0, and the integer 0 otherwise. The volatility is never negative, so the
  Sharpe ratio is 0 when the volatility is 0 or missing; and it is \<open>NaN\<close> when the
  volatility is greater than 0 and the annualized return is \<open>NaN\<close>.
\<close>

theorem sharpe_ratio_guard:
  assumes "snd (run_backtest (Some df)) = Some res"
  shows "\<exists>avg vol.
           result_get (Some res) ''average_annual_return'' = Some (PyFloat avg)
         \<and> result_get (Some res) ''annualized_volatility'' = Some (PyFloat vol)
         \<and> result_get (Some res) ''sharpe_ratio''
             = Some (if fl_gt vol (Fin 0) then PyFloat (fl_div avg vol) else PyInt 0)
         \<and> \<not> fl_gt (Fin 0) vol
         \<and> (vol = Fin 0 \<or> vol = NaN \<longrightarrow> result_get (Some res) ''sharpe_ratio'' = Some (PyInt 0))
         \<and> (fl_gt vol (Fin 0) \<and> avg = NaN
              \<longrightarrow> result_get (Some res) ''sharpe_ratio'' = Some (PyFloat NaN))"
proof (cases "df_col df ''MA_5''")
  case (Inl e)
  with assms show ?thesis by (simp add: run_backtest_missing_ma)
next
  case ma: (Inr ma)
  show ?thesis
  proof (cases "df_col df ''Close''")
    case (Inl e)
    with ma assms show ?thesis by (simp add: run_backtest_missing_close)
  next
    case (Inr close)
    let ?sr = "strategy_returns_of ma close"
    let ?cum = "cumulative_returns_of ?sr"
    let ?avg = "fl_sub (fl_pow (fl_add (last ?cum) (Fin 1)) (252 / real (nrows df))) (Fin 1)"
    let ?vol = "fl_mul (series_std ?sr) (fl_sqrt (Fin 252))"
    let ?sharpe = "if fl_gt ?vol (Fin 0) then PyFloat (fl_div ?avg ?vol) else PyInt 0"
    have res: "res = [(''cumulative_returns'', PyList (map PyFloat ?cum)),
                      (''total_return'', PyFloat (last ?cum)),
                      (''average_annual_return'', PyFloat ?avg),
                      (''annualized_volatility'', PyFloat ?vol),
                      (''sharpe_ratio'', ?sharpe)]"
      using assms by (simp add: run_backtest_result[OF ma Inr] Let_def split: if_splits)
    have avg: "result_get (Some res) ''average_annual_return'' = Some (PyFloat ?avg)"
      and vol: "result_get (Some res) ''annualized_volatility'' = Some (PyFloat ?vol)"
      and sharpe: "result_get (Some res) ''sharpe_ratio'' = Some ?sharpe"
      by (simp_all add: res result_get_def)
    have nonneg: "\<not> fl_gt (Fin 0) ?vol"
      by (rule volatility_nonneg)
    have zero: "?vol = Fin 0 \<or> ?vol = NaN \<longrightarrow> ?sharpe = PyInt 0"
      by auto
    have undefined: "fl_gt ?vol (Fin 0) \<and> ?avg = NaN \<longrightarrow> ?sharpe = PyFloat NaN"
      by auto
    show ?thesis
      using avg vol sharpe nonneg zero undefined by (intro exI[of _ ?avg] exI[of _ ?vol]) simp
  qed
qed

theorem sharpe_ratio_guard_witness:
  "snd (run_backtest (Some scenario_processed)) = Some scenario_metrics
   \<and> (\<exists>avg vol.
          result_get (Some scenario_metrics) ''average_annual_return'' = Some (PyFloat avg)
        \<and> result_get (Some scenario_metrics) ''annualized_volatility'' = Some (PyFloat vol)
        \<and> fl_gt vol (Fin 0)
        \<and> result_get (Some scenario_metrics) ''sharpe_ratio'' = Some (PyFloat (fl_div avg vol)))"
proof -
  have ok: "snd (run_backtest (Some scenario_processed)) = Some scenario_metrics"
    by (simp add: scenario_backtest)
  from sharpe_ratio_guard[OF ok] obtain avg vol where
    avg: "result_get (Some scenario_metrics) ''average_annual_return'' = Some (PyFloat avg)"
    and vol: "result_get (Some scenario_metrics) ''annualized_volatility'' = Some (PyFloat vol)"
    and sharpe: "result_get (Some scenario_metrics) ''sharpe_ratio''
                 = Some (if fl_gt vol (Fin 0) then PyFloat (fl_div avg vol) else PyInt 0)"
    by blast
  from vol have "fl_gt vol (Fin 0)"
    by (auto simp: result_get_def scenario_metrics_def)
  with ok avg vol sharpe show ?thesis by auto
qed

text \<open>
  The claim as stated fails: eight closing prices \<open>1, 1, 1, 1, 1, 3, 3, 3\<close>. At row 4 the
  moving average equals the price, so the engine is Short on the day the price triples;
  the cumulative return is \<open>-2\<close>, and the annualized return \<open>(-1) ** 31.5 - 1\<close> is
  \<open>NaN\<close>. The volatility is a positive number (it is 12), and the Sharpe ratio is \<open>NaN\<close>.
\<close>

theorem sharpe_ratio_undefined:
  "result_get (snd (run_backtest (preprocess_data (Some tripling_raw)))) ''total_return''
       = Some (PyFloat (Fin (- 2)))
   \<and> result_get (snd (run_backtest (preprocess_data (Some tripling_raw))))
        ''average_annual_return'' = Some (PyFloat NaN)
   \<and> result_get (snd (run_backtest (preprocess_data (Some tripling_raw))))
        ''annualized_volatility'' = Some (PyFloat (Fin (sqrt (4 / 7) * sqrt 252)))
   \<and> fl_gt (Fin (sqrt (4 / 7) * sqrt 252)) (Fin 0)
   \<and> result_get (snd (run_backtest (preprocess_data (Some tripling_raw)))) ''sharpe_ratio''
       = Some (PyFloat NaN)"
  by (simp add: eval_defs tripling_raw_def)




text \<open>
  C7. The feature stage is idempotent: when it succeeds on a frame, running it on its own
  result succeeds and returns that result unchanged, with the same columns in the same
  order and the same cells.
\<close>

theorem preprocess_data_idempotent:
  assumes "preprocess_data (Some df) = Some df'"
  shows "preprocess_data (Some df') = Some df'"
  using preprocess_data_twice[of "Some df"] assms by simp

theorem preprocess_data_idempotent_witness:
  "preprocess_data (Some scenario_raw) = Some scenario_processed
   \<and> preprocess_data (Some scenario_processed) = Some scenario_processed"
  using preprocess_data_idempotent[OF scenario_preprocessed]
  by (simp add: scenario_preprocessed)




lemmas adapter_defs = run_r_analysis_def run_r_analysis_try_def run_matlab_simulation_def
  run_matlab_simulation_try_def pad_columns_def dict_of_def convert_item_def try_except_def

text \<open>
  C8, as the code has it. When loading, the feature stage and the backtest succeed,
  \<open>main\<close> builds the combined dictionary, with exactly the three keys \<open>r_results\<close>,
  \<open>matlab_results\<close> and \<open>backtest_results\<close>, in this order. An adapter that returned
  \<open>None\<close> contributes the empty dictionary, and the backtest entry holds the five metrics.
\<close>

theorem main_report:
  assumes "load_data fs data_file file_type = Some df"
    and "preprocess_data (Some df) = Some dfp"
    and "snd (run_backtest (Some dfp)) = Some bt"
  shows "\<exists>r m. main fs reng meng data_file r_script matlab_script file_type
                 = Some [(''r_results'', PyDict r), (''matlab_results'', m),
                         (''backtest_results'', PyDict bt)]
             \<and> (run_r_analysis reng (Some dfp) r_script = None \<longrightarrow> r = [])
             \<and> (snd (run_matlab_simulation meng (Some dfp) matlab_script) = None
                  \<longrightarrow> m = PyDict [])
             \<and> map fst bt = metric_keys"
  using main_Some[OF assms, of reng meng r_script matlab_script] run_backtest_keys[OF assms(3)]
  by auto

theorem main_report_witness:
  "load_data scenario_files ''data.csv'' ''csv'' = Some scenario_raw
   \<and> preprocess_data (Some scenario_raw) = Some scenario_processed
   \<and> snd (run_backtest (Some scenario_processed)) = Some scenario_metrics
   \<and> run_r_analysis r_unavailable (Some scenario_processed) ''analysis.R'' = None
   \<and> snd (run_matlab_simulation matlab_unavailable (Some scenario_processed) ''simulation.m'')
       = None
   \<and> main scenario_files r_unavailable matlab_unavailable
        ''data.csv'' ''analysis.R'' ''simulation.m'' ''csv''
       = Some [(''r_results'', PyDict []), (''matlab_results'', PyDict []),
               (''backtest_results'', PyDict scenario_metrics)]
   \<and> map fst scenario_metrics = metric_keys"
proof -
  have r: "run_r_analysis r_unavailable (Some scenario_processed) ''analysis.R'' = None"
    by (simp add: adapter_defs r_unavailable_def)
  have m: "snd (run_matlab_simulation matlab_unavailable (Some scenario_processed)
                  ''simulation.m'') = None"
    by (simp add: adapter_defs matlab_unavailable_def)
  from main_report[OF scenario_loaded scenario_preprocessed scenario_backtest_result,
      where reng = r_unavailable and r_script = "''analysis.R''"
        and meng = matlab_unavailable and matlab_script = "''simulation.m''"]
  have "main scenario_files r_unavailable matlab_unavailable
          ''data.csv'' ''analysis.R'' ''simulation.m'' ''csv''
        = Some [(''r_results'', PyDict []), (''matlab_results'', PyDict []),
                (''backtest_results'', PyDict scenario_metrics)]
        \<and> map fst scenario_metrics = metric_keys"
    using r m by auto
  with r m show ?thesis
    by (simp add: scenario_loaded scenario_preprocessed scenario_backtest_result)
qed

text \<open>
  The claim as stated fails on the names: in a run where everything succeeds, the report
  has no key \<open>statistical_results\<close> and no key \<open>simulation_results\<close>.
\<close>

theorem report_key_names:
  "main scenario_files r_answering matlab_answering
        ''data.csv'' ''analysis.R'' ''simulation.m'' ''csv''
       = Some [(''r_results'', PyDict [(''summary'', PyR (RObject 0))]),
               (''matlab_results'', PyOpaque 0),
               (''backtest_results'', PyDict scenario_metrics)]
   \<and> result_get (main scenario_files r_answering matlab_answering
        ''data.csv'' ''analysis.R'' ''simulation.m'' ''csv'') ''statistical_results'' = None
   \<and> result_get (main scenario_files r_answering matlab_answering
        ''data.csv'' ''analysis.R'' ''simulation.m'' ''csv'') ''simulation_results'' = None"
proof -
  have r: "run_r_analysis r_answering (Some scenario_processed) ''analysis.R''
           = Some [(''summary'', PyR (RObject 0))]"
    by (simp add: adapter_defs r_answering_def)
  have m: "snd (run_matlab_simulation matlab_answering (Some scenario_processed)
                  ''simulation.m'') = Some (PyOpaque 0)"
    by (simp add: adapter_defs matlab_answering_def scenario_processed_def)
  have "main scenario_files r_answering matlab_answering
          ''data.csv'' ''analysis.R'' ''simulation.m'' ''csv''
        = Some [(''r_results'', PyDict [(''summary'', PyR (RObject 0))]),
                (''matlab_results'', PyOpaque 0),
                (''backtest_results'', PyDict scenario_metrics)]"
    by (simp add: main_Some[OF scenario_loaded scenario_preprocessed scenario_backtest_result]
        r m)
  then show ?thesis
    by (simp add: result_get_def)
qed

text \<open>
  C9. The session of the MATLAB adapter on the path where the call of the engine itself
  fails. With an engine that starts and converts the data but whose \<open>eval\<close> raises,
  \<open>run_matlab_simulation\<close> returns \<open>None\<close> and the session it started is still live:
  the outer handler returns without \<open>quit\<close>. The session is released on the success path
  and on the path of a failed conversion, as the claim says.
\<close>

theorem matlab_session_left_live:
  "run_matlab_simulation matlab_eval_fails (Some scenario_processed) ''simulation.m''
       = (Live, None)
   \<and> run_matlab_simulation matlab_struct_fails (Some scenario_processed) ''simulation.m''
       = (Released, None)
   \<and> run_matlab_simulation matlab_answering (Some scenario_processed) ''simulation.m''
       = (Released, Some (PyOpaque 0))"
  by (simp add: adapter_defs matlab_eval_fails_def matlab_struct_fails_def matlab_answering_def
      scenario_processed_def)

lemma preprocess_data_None_iff:
  "(preprocess_data (Some d) = None) = (df_col d ''Close'' = Inl (KeyError ''Close''))"
proof (cases "df_col d ''Close''")
  case (Inl e)
  then have "e = KeyError ''Close''"
    by (simp add: df_col_def split: option.splits)
  with Inl show ?thesis by (simp add: preprocess_data_None)
next
  case (Inr raw)
  then show ?thesis by (simp add: preprocess_data_Some)
qed

lemma run_backtest_None_iff:
  assumes "wf_df d"
  shows "(snd (run_backtest (Some d)) = None)
          = (df_col d ''MA_5'' = Inl (KeyError ''MA_5'')
             \<or> df_col d ''Close'' = Inl (KeyError ''Close'') \<or> nrows d = 0)"
proof (cases "df_col d ''MA_5''")
  case (Inl e)
  then have "e = KeyError ''MA_5''"
    by (simp add: df_col_def split: option.splits)
  with Inl show ?thesis by (simp add: run_backtest_missing_ma)
next
  case ma: (Inr ma)
  show ?thesis
  proof (cases "df_col d ''Close''")
    case (Inl e)
    then have "e = KeyError ''Close''"
      by (simp add: df_col_def split: option.splits)
    with Inl ma show ?thesis by (simp add: run_backtest_missing_close)
  next
    case (Inr close)
    have "length (cumulative_returns_of (strategy_returns_of ma close)) = nrows d"
      using df_col_length[OF assms ma] df_col_length[OF assms Inr]
      by (simp add: length_cumulative_returns_of length_strategy_returns_of)
    then have "(cumulative_returns_of (strategy_returns_of ma close) = []) = (nrows d = 0)"
      by (metis length_0_conv)
    then show ?thesis
      using ma Inr by (auto simp: run_backtest_result[OF ma Inr] Let_def)
  qed
qed

lemma run_matlab_simulation_None_iff:
  "(snd (run_matlab_simulation eng (Some d) script) = None)
    = (start_matlab eng \<noteq> None \<or> columns d = []
       \<or> (\<exists>data e. pad_columns (columns d) = Inr data \<and> eng_struct eng data = Some e)
       \<or> isl (eng_eval eng (run_command script)) \<or> eng_quit eng \<noteq> None)"
  by (auto simp: run_matlab_simulation_def run_matlab_simulation_try_def try_except_def
      run_command_def pad_columns_def Let_def split: option.splits sum.splits prod.splits)

lemma run_r_analysis_None_iff:
  "(run_r_analysis eng (Some d) script = None) = isl (eng script d)"
  by (simp add: run_r_analysis_def run_r_analysis_try_def try_except_def split: sum.splits)

lemma stage_calls_return:
  "preprocess_data_call None df = Inr (preprocess_data df)"
  "run_r_analysis_call None reng df r_script = Inr (run_r_analysis reng df r_script)"
  "run_matlab_simulation_call None meng df m_script
     = Inr (snd (run_matlab_simulation meng df m_script))"
  "run_backtest_call None df = Inr (snd (run_backtest df))"
  by (simp_all add: preprocess_data_call_def run_r_analysis_call_def
      run_matlab_simulation_call_def run_backtest_call_def try_except_call_def
      preprocess_data_def run_r_analysis_def run_matlab_simulation_def run_backtest_def
      split: option.splits prod.splits)

text \<open>
  C10, as the code has it. Each of the four stage functions returns \<open>None\<close> at once when
  it is given no frame. When no raise outside \<open>Exception\<close> occurs, a call of a stage
  function returns, and it returns \<open>None\<close> exactly when its \<open>try\<close> block raises:
  \<open>preprocess_data\<close> when the column \<open>Close\<close> is absent; \<open>run_r_analysis\<close> when the
  engine raises; \<open>run_matlab_simulation\<close> when starting the engine, the conversion, the
  evaluation or \<open>quit\<close> raises or the frame has no column; \<open>run_backtest\<close> (on a
  well-formed frame) when a required column is absent or the frame has no row. A raise
  outside \<open>Exception\<close> in the \<open>try\<close> block is not caught: it reaches the caller.
\<close>

theorem stage_calls_catch_exceptions:
  "preprocess_data_call i None = Inr None
   \<and> run_r_analysis_call i reng None r_script = Inr None
   \<and> run_matlab_simulation_call i meng None m_script = Inr None
   \<and> run_backtest_call i None = Inr None
   \<and> (\<exists>v. preprocess_data_call None (Some dp) = Inr v
          \<and> (v = None) = (df_col dp ''Close'' = Inl (KeyError ''Close'')))
   \<and> (\<exists>v. run_r_analysis_call None reng (Some dr) r_script = Inr v
          \<and> (v = None) = isl (reng r_script dr))
   \<and> (\<exists>v. run_matlab_simulation_call None meng (Some dm) m_script = Inr v
          \<and> (v = None)
              = (start_matlab meng \<noteq> None \<or> columns dm = []
                 \<or> (\<exists>data e. pad_columns (columns dm) = Inr data
                       \<and> eng_struct meng data = Some e)
                 \<or> isl (eng_eval meng (run_command m_script)) \<or> eng_quit meng \<noteq> None))
   \<and> (wf_df db \<longrightarrow>
        (\<exists>v. run_backtest_call None (Some db) = Inr v
           \<and> (v = None)
               = (df_col db ''MA_5'' = Inl (KeyError ''MA_5'')
                  \<or> df_col db ''Close'' = Inl (KeyError ''Close'') \<or> nrows db = 0)))
   \<and> preprocess_data_call (Some s) (Some dp) = Inl s
   \<and> run_r_analysis_call (Some s) reng (Some dr) r_script = Inl s
   \<and> run_matlab_simulation_call (Some s) meng (Some dm) m_script = Inl s
   \<and> run_backtest_call (Some s) (Some db) = Inl s"
proof -
  have absent: "preprocess_data_call i None = Inr None"
    "run_r_analysis_call i reng None r_script = Inr None"
    "run_matlab_simulation_call i meng None m_script = Inr None"
    "run_backtest_call i None = Inr None"
    by (simp_all add: preprocess_data_call_def run_r_analysis_call_def
        run_matlab_simulation_call_def run_backtest_call_def)
  have raised: "preprocess_data_call (Some s) (Some dp) = Inl s"
    "run_r_analysis_call (Some s) reng (Some dr) r_script = Inl s"
    "run_matlab_simulation_call (Some s) meng (Some dm) m_script = Inl s"
    "run_backtest_call (Some s) (Some db) = Inl s"
    by (simp_all add: preprocess_data_call_def run_r_analysis_call_def
        run_matlab_simulation_call_def run_backtest_call_def try_except_call_def)
  have p: "\<exists>v. preprocess_data_call None (Some dp) = Inr v
          \<and> (v = None) = (df_col dp ''Close'' = Inl (KeyError ''Close''))"
    by (simp add: stage_calls_return preprocess_data_None_iff)
  have r: "\<exists>v. run_r_analysis_call None reng (Some dr) r_script = Inr v
          \<and> (v = None) = isl (reng r_script dr)"
    by (simp add: stage_calls_return run_r_analysis_None_iff)
  have m: "\<exists>v. run_matlab_simulation_call None meng (Some dm) m_script = Inr v
          \<and> (v = None)
              = (start_matlab meng \<noteq> None \<or> columns dm = []
                 \<or> (\<exists>data e. pad_columns (columns dm) = Inr data
                       \<and> eng_struct meng data = Some e)
                 \<or> isl (eng_eval meng (run_command m_script)) \<or> eng_quit meng \<noteq> None)"
    by (simp add: stage_calls_return run_matlab_simulation_None_iff)
  have b: "wf_df db \<longrightarrow>
        (\<exists>v. run_backtest_call None (Some db) = Inr v
           \<and> (v = None)
               = (df_col db ''MA_5'' = Inl (KeyError ''MA_5'')
                  \<or> df_col db ''Close'' = Inl (KeyError ''Close'') \<or> nrows db = 0))"
    by (simp add: stage_calls_return run_backtest_None_iff)
  from absent raised p r m b show ?thesis
    by blast
qed

theorem stage_calls_catch_exceptions_witness:
  "preprocess_data_call None (Some no_close) = Inr None
   \<and> df_col no_close ''Close'' = Inl (KeyError ''Close'')
   \<and> run_r_analysis_call None r_unavailable (Some scenario_processed) ''analysis.R'' = Inr None
   \<and> isl (r_unavailable ''analysis.R'' scenario_processed)
   \<and> run_matlab_simulation_call None matlab_eval_fails (Some scenario_processed) ''simulation.m''
       = Inr None
   \<and> isl (eng_eval matlab_eval_fails (run_command ''simulation.m''))
   \<and> wf_df scenario_raw
   \<and> run_backtest_call None (Some scenario_raw) = Inr None
   \<and> df_col scenario_raw ''MA_5'' = Inl (KeyError ''MA_5'')
   \<and> run_backtest_call (Some KeyboardInterrupt) None = Inr None"
proof -
  have p: "df_col no_close ''Close'' = Inl (KeyError ''Close'')"
    by (simp add: df_col_def no_close_def)
  have r: "isl (r_unavailable ''analysis.R'' scenario_processed)"
    by (simp add: r_unavailable_def)
  have m: "isl (eng_eval matlab_eval_fails (run_command ''simulation.m''))"
    by (simp add: matlab_eval_fails_def)
  have b: "df_col scenario_raw ''MA_5'' = Inl (KeyError ''MA_5'')"
    by (simp add: df_col_def scenario_raw_def)
  show ?thesis
    using p r m b wf_scenario_raw
      stage_calls_catch_exceptions[where dp = no_close and reng = r_unavailable
        and dr = scenario_processed and r_script = "''analysis.R''"
        and meng = matlab_eval_fails and dm = scenario_processed
        and m_script = "''simulation.m''" and db = scenario_raw
        and i = "Some KeyboardInterrupt" and s = KeyboardInterrupt]
    by auto
qed

text \<open>
  The claim as stated fails: a \<open>KeyboardInterrupt\<close> raised while the \<open>try\<close> block of
  \<open>run_matlab_simulation\<close> runs, on an engine that answers every call, is not turned
  into \<open>None\<close>. It reaches the caller, and so does one in \<open>run_backtest\<close>.
\<close>

theorem keyboard_interrupt_propagates:
  "run_matlab_simulation_call (Some KeyboardInterrupt) matlab_answering
       (Some scenario_processed) ''simulation.m'' = Inl KeyboardInterrupt
   \<and> run_matlab_simulation_call None matlab_answering
       (Some scenario_processed) ''simulation.m'' = Inr (Some (PyOpaque 0))
   \<and> run_backtest_call (Some KeyboardInterrupt) (Some scenario_processed)
       = Inl KeyboardInterrupt"
  by (simp add: run_matlab_simulation_call_def run_backtest_call_def try_except_call_def
      adapter_defs matlab_answering_def scenario_processed_def)

end
